theory Spec2Isabelle
  imports Main "HOL-Library.Char_ord" "HOL-Library.List_Lexorder"
begin

section \<open>lice: license templates, comment styles and variable substitution\<close>

text \<open>
  A shallow embedding of \<^verbatim>\<open>src/lice/core.py\<close>.

  \<^item> A byte string (the content of a file, the output of a subprocess) is a \<open>string\<close>,
    one \<open>char\<close> per byte.
  \<^item> A text (Python's unicode string, the content of a \<open>StringIO\<close>) is represented by its
    UTF-8 encoding, again a \<open>string\<close>. Concatenation, substring search and the
    lexicographic order by code point agree with the same operations on the UTF-8 bytes,
    so \<open>bytes.decode("utf-8")\<close> is the identity on well-formed input and raises on the
    rest.
  \<^item> An exception is a value of the type \<open>error\<close>; a function that can raise returns
    \<open>error + 'a\<close>, with \<open>Inl\<close> for the exception.
  \<^item> A \<open>StringIO\<close> that is only ever appended to and then read with \<open>getvalue()\<close> is the
    text written so far.
  \<^item> What the code asks of the operating system (packaged resources, the file system, path
    expansion) is a record of functions, \<open>env\<close>.
\<close>

type_synonym str = string

datatype error =
    ValueError str
  | IOError
  | KeyError str
  | UnicodeDecodeError
  | AttributeError
  | OSError
  | CalledProcessError

subsection \<open>The language and comment tables\<close>

definition DEFAULT_LICENSE :: str where
  "DEFAULT_LICENSE = ''bsd3''"

definition LANGS :: "(str \<times> str) list" where
  "LANGS =
    [(''txt'', ''text''), (''h'', ''c''), (''hpp'', ''c''), (''c'', ''c''), (''cc'', ''c''),
     (''cpp'', ''c''), (''py'', ''unix''), (''pl'', ''perl''), (''sh'', ''unix''),
     (''lua'', ''lua''), (''rb'', ''ruby''), (''js'', ''c''), (''java'', ''java''),
     (''f'', ''fortran''), (''f90'', ''fortran90''), (''erl'', ''erlang''),
     (''html'', ''html''), (''css'', ''c''), (''m'', ''c'')]"

text \<open>Each comment type is the triple (open, line prefix, close): the indices 0, 1, 2 of the
  source's three-element lists.\<close>

definition LANG_CMT :: "(str \<times> str \<times> str \<times> str) list" where
  "LANG_CMT =
    [(''text'', [], [], []),
     (''c'', ''/*'', '' *'', '' */''),
     (''unix'', [], ''#'', []),
     (''lua'', ''--[['', [], ''--]]''),
     (''java'', ''/**'', '' *'', '' */''),
     (''perl'', ''=item'', [], ''=cut''),
     (''ruby'', ''=begin'', [], ''=end''),
     (''fortran'', ''C'', ''C'', ''C''),
     (''fortran90'', ''!*'', ''!*'', ''!*''),
     (''erlang'', ''%%'', ''%'', ''%%''),
     (''html'', ''<!--'', [], ''-->'')]"

text \<open>\<^verbatim>\<open>LANG_CMT[LANGS[lang]]\<close>: either lookup raises \<open>KeyError\<close> on a missing key.\<close>

definition lang_cmt :: "str \<Rightarrow> error + (str \<times> str \<times> str)" where
  "lang_cmt lang =
     (case map_of LANGS lang of
        None \<Rightarrow> Inl (KeyError lang)
      | Some name \<Rightarrow>
          (case map_of LANG_CMT name of
             None \<Rightarrow> Inl (KeyError name)
           | Some cmt \<Rightarrow> Inr cmt))"

subsection \<open>Bytes, lines and decoding\<close>

abbreviation NL :: char where
  "NL \<equiv> CHR 0x0A"

text \<open>Iterating over a file opened in binary mode yields its lines, each with its line
  feed; only the last line may lack one.\<close>

fun readlines :: "string \<Rightarrow> string list" where
  "readlines [] = []"
| "readlines (c # cs) =
     (if c = NL then [c] # readlines cs
      else (case readlines cs of [] \<Rightarrow> [[c]] | l # ls \<Rightarrow> (c # l) # ls))"

text \<open>Well-formed UTF-8 (the table of well-formed byte sequences of the Unicode standard),
  on the values of the bytes.\<close>

definition cont :: "nat \<Rightarrow> bool" where
  "cont b = (0x80 \<le> b \<and> b \<le> 0xBF)"

fun utf8_ok :: "nat list \<Rightarrow> bool" where
  "utf8_ok [] = True"
| "utf8_ok (b # bs) =
     (if b < 0x80 then utf8_ok bs
      else if 0xC2 \<le> b \<and> b \<le> 0xDF then
        (case bs of c1 # r \<Rightarrow> cont c1 \<and> utf8_ok r | _ \<Rightarrow> False)
      else if 0xE0 \<le> b \<and> b \<le> 0xEF then
        (case bs of
           c1 # c2 # r \<Rightarrow>
             (if b = 0xE0 then 0xA0 \<le> c1 \<and> c1 \<le> 0xBF
              else if b = 0xED then 0x80 \<le> c1 \<and> c1 \<le> 0x9F
              else cont c1) \<and> cont c2 \<and> utf8_ok r
         | _ \<Rightarrow> False)
      else if 0xF0 \<le> b \<and> b \<le> 0xF4 then
        (case bs of
           c1 # c2 # c3 # r \<Rightarrow>
             (if b = 0xF0 then 0x90 \<le> c1 \<and> c1 \<le> 0xBF
              else if b = 0xF4 then 0x80 \<le> c1 \<and> c1 \<le> 0x8F
              else cont c1) \<and> cont c2 \<and> cont c3 \<and> utf8_ok r
         | _ \<Rightarrow> False)
      else False)"

text \<open>\<^verbatim>\<open>bs.decode("utf-8")\<close>.\<close>

definition decode_utf8 :: "string \<Rightarrow> error + str" where
  "decode_utf8 bs = (if utf8_ok (map of_char bs) then Inr bs else Inl UnicodeDecodeError)"

subsection \<open>The operating system\<close>

record env =
  resources :: "str \<rightharpoonup> string"
  exists :: "str \<Rightarrow> bool"
  expanduser :: "str \<Rightarrow> str"
  expandvars :: "str \<Rightarrow> str"
  abspath :: "str \<Rightarrow> str"
  open_rb :: "str \<Rightarrow> error + string"

definition clean_path :: "env \<Rightarrow> str \<Rightarrow> str" where
  "clean_path os p = abspath os (expandvars os (expanduser os p))"

subsection \<open>Loading and decorating a template\<close>

text \<open>The loop of both loaders: for each line, write the line prefix and a space, then the
  decoded line.\<close>

fun write_lines :: "str \<Rightarrow> str \<Rightarrow> string list \<Rightarrow> error + str" where
  "write_lines content pre [] = Inr content"
| "write_lines content pre (line # rest) =
     (case decode_utf8 line of
        Inl e \<Rightarrow> Inl e
      | Inr t \<Rightarrow> write_lines ((content @ (pre @ '' '')) @ t) pre rest)"

text \<open>The body of the \<open>with\<close> block of both loaders, on the bytes of the opened file.\<close>

definition write_template :: "str \<Rightarrow> string \<Rightarrow> error + str" where
  "write_template lang infile =
     (case lang_cmt lang of
        Inl e \<Rightarrow> Inl e
      | Inr (op, pre, cl) \<Rightarrow>
          (case write_lines (op @ [NL]) pre (readlines infile) of
             Inl e \<Rightarrow> Inl e
           | Inr content \<Rightarrow> Inr (content @ (cl @ [NL]))))"

definition load_file_template :: "env \<Rightarrow> str \<Rightarrow> str \<Rightarrow> error + str" where
  "load_file_template os path lang =
     (if \<not> exists os path then Inl (ValueError (''path does not exist: '' @ path))
      else (case open_rb os (clean_path os path) of
              Inl e \<Rightarrow> Inl e
            | Inr infile \<Rightarrow> write_template lang infile))"

definition template_name :: "str \<Rightarrow> bool \<Rightarrow> str" where
  "template_name license header =
     (if header then ''template-'' @ license @ ''-header.txt''
      else ''template-'' @ license @ ''.txt'')"

definition load_package_template :: "env \<Rightarrow> str \<Rightarrow> str \<Rightarrow> bool \<Rightarrow> error + str" where
  "load_package_template os license lang header =
     (case resources os (template_name license header) of
        None \<Rightarrow> Inl IOError
      | Some licfile \<Rightarrow> write_template lang licfile)"

subsection \<open>Extracting the variables\<close>

text \<open>The class \<^verbatim>\<open>\w\<close> on ASCII: letters, digits and the underscore. This is the whole class
  for a pattern without the flag \<open>UNICODE\<close> under Python 2; under Python 3 the class has
  the letters and digits beyond ASCII as well, which the model leaves out: it is exact on
  templates whose placeholder names are ASCII.\<close>

definition word_char :: "char \<Rightarrow> bool" where
  "word_char c =
     ((CHR ''a'' \<le> c \<and> c \<le> CHR ''z'') \<or> (CHR ''A'' \<le> c \<and> c \<le> CHR ''Z'')
      \<or> (CHR ''0'' \<le> c \<and> c \<le> CHR ''9'') \<or> c = CHR ''_'')"

text \<open>
  The pattern \<^verbatim>\<open>\{\{ (?P<key>\w+) \}\}\<close> matched at the start of \<open>s\<close>: the key and
  the text after the match. The greedy \<^verbatim>\<open>\w+\<close> takes the longest run of word
  characters; backtracking to a shorter run cannot succeed, since the next character would
  be a word character and not the space the pattern asks for.
\<close>

definition match_key :: "str \<Rightarrow> (str \<times> str) option" where
  "match_key s =
     (let key = takeWhile word_char (drop 3 s); rest = dropWhile word_char (drop 3 s)
      in if take 3 s = ''{{ '' \<and> key \<noteq> [] \<and> take 3 rest = '' }}''
         then Some (key, drop 3 rest) else None)"

text \<open>\<^verbatim>\<open>re.finditer\<close>: the matches from left to right, each search starting where the
  previous match ended.\<close>

function finditer :: "str \<Rightarrow> str list" where
  "finditer s =
     (case match_key s of
        Some (key, rest) \<Rightarrow> key # finditer rest
      | None \<Rightarrow> (case s of [] \<Rightarrow> [] | c # cs \<Rightarrow> finditer cs))"
  by pat_completeness auto
termination
proof (relation "measure length")
  show "wf (measure length)" by simp
next
  fix s :: str and m key rest
  assume "match_key s = Some m" and "(key, rest) = m"
  then have r: "rest = drop 3 (dropWhile word_char (drop 3 s))" and k: "take 3 s = ''{{ ''"
    by (auto simp: match_key_def Let_def split: if_splits)
  from k have "s \<noteq> []" by auto
  moreover have "length (dropWhile word_char (drop 3 s)) \<le> length (drop 3 s)"
    by (rule length_dropWhile_le)
  ultimately show "(rest, s) \<in> measure length" unfolding r by (cases s) auto
next
  fix s :: str and c cs
  assume "s = c # cs"
  then show "(cs, s) \<in> measure length" by simp
qed

declare finditer.simps [simp del]

text \<open>\<^verbatim>\<open>sorted(list(keys))\<close> of the set of the keys found.\<close>

definition extract_vars :: "str \<Rightarrow> str list" where
  "extract_vars template = sort (remdups (finditer template))"

subsection \<open>Generating the license\<close>

text \<open>\<^verbatim>\<open>s.replace(old, new)\<close>: the occurrences of \<open>old\<close> from left to right, without
  overlap. (An empty \<open>old\<close> matches before every character and at the end.)\<close>

function replace :: "str \<Rightarrow> str \<Rightarrow> str \<Rightarrow> str" where
  "replace s old new =
     (if old = [] then (case s of [] \<Rightarrow> new | c # cs \<Rightarrow> new @ c # replace cs old new)
      else if s = [] then []
      else if take (length old) s = old then new @ replace (drop (length old) s) old new
      else hd s # replace (tl s) old new)"
  by pat_completeness auto
termination
  by (relation "measure (\<lambda>(s, old, new). length s)") auto

declare replace.simps [simp del]

definition placeholder :: "str \<Rightarrow> str" where
  "placeholder key = ''{{ '' @ key @ '' }}''"

text \<open>The loop of \<open>generate_license\<close> over the extracted keys.\<close>

fun substitute :: "str list \<Rightarrow> (str \<rightharpoonup> str) \<Rightarrow> str \<Rightarrow> error + str" where
  "substitute [] ctx content = Inr content"
| "substitute (key # keys) ctx content =
     (case ctx key of
        None \<Rightarrow> Inl (ValueError (key @ '' is missing from the template context''))
      | Some v \<Rightarrow> substitute keys ctx (replace content (placeholder key) v))"

definition generate_license :: "str \<Rightarrow> (str \<rightharpoonup> str) \<Rightarrow> error + str" where
  "generate_license template ctx = substitute (extract_vars template) ctx template"

subsection \<open>The command line\<close>

text \<open>The namespace that \<open>parse_args\<close> returns. An option that was not given and has no
  default is \<open>None\<close>.\<close>

record args =
  license :: "str option"
  header :: bool
  organization :: str
  project :: str
  template_path :: "str option"
  year :: str
  language :: str
  ofile :: str
  list_vars :: bool

definition get_context :: "args \<Rightarrow> (str \<rightharpoonup> str)" where
  "get_context a =
     [''year'' \<mapsto> year a, ''organization'' \<mapsto> organization a, ''project'' \<mapsto> project a]"

text \<open>How the process ends: \<open>sys.exit(n)\<close>, an exception nobody caught, or the return
  from \<open>main\<close>. What it wrote itself on the two streams, and the file it wrote, if any
  (name and content).\<close>

datatype ending = Exit nat | Raised error | Returned

record outcome =
  stdout :: str
  stderr :: str
  written :: "(str \<times> str) option"
  ending :: ending

definition silent :: "ending \<Rightarrow> outcome" where
  "silent e = \<lparr>stdout = [], stderr = [], written = None, ending = e\<rparr>"

text \<open>\<^verbatim>\<open>"%s" % x\<close> for an optional string, and the truth value of one.\<close>

definition percent_s :: "str option \<Rightarrow> str" where
  "percent_s x = (case x of None \<Rightarrow> ''None'' | Some v \<Rightarrow> v)"

definition truthy :: "str option \<Rightarrow> bool" where
  "truthy x = (case x of None \<Rightarrow> False | Some v \<Rightarrow> v \<noteq> [])"

text \<open>\<^verbatim>\<open>args.template_path or license\<close> and \<^verbatim>\<open>args.license or DEFAULT_LICENSE\<close>.\<close>

definition or_else :: "str option \<Rightarrow> str \<Rightarrow> str" where
  "or_else x d = (if truthy x then the x else d)"

text \<open>The choice between the two loaders, as written in the two modes other than the header
  mode.\<close>

definition load_template :: "env \<Rightarrow> args \<Rightarrow> error + str" where
  "load_template os a =
     (if truthy (template_path a)
      then load_file_template os (the (template_path a)) (language a)
      else load_package_template os (or_else (license a) DEFAULT_LICENSE) (language a) False)"

text \<open>The lines that the variable listing prints.\<close>

fun var_lines :: "(str \<rightharpoonup> str) \<Rightarrow> str list \<Rightarrow> str" where
  "var_lines ctx [] = []"
| "var_lines ctx (v # vs) =
     (case ctx v of
        Some x \<Rightarrow> ''  '' @ v @ '' = '' @ x @ [NL]
      | None \<Rightarrow> ''  '' @ v @ [NL]) @ var_lines ctx vs"

text \<open>\<open>main\<close>, from the line after \<open>parse_args\<close> on.\<close>

definition main :: "env \<Rightarrow> args \<Rightarrow> outcome" where
  "main os a =
     (let license' = or_else (license a) DEFAULT_LICENSE; lang = language a in
      if header a then
        (case (if truthy (template_path a)
               then (case load_file_template os (the (template_path a)) lang of
                       Inl e \<Rightarrow> Inl (silent (Raised e))
                     | Inr t \<Rightarrow> Inr t)
               else (case load_package_template os license' lang True of
                       Inl IOError \<Rightarrow>
                         Inl ((silent (Exit 1))
                           \<lparr>stderr := ''Sorry, no source headers are available for ''
                              @ percent_s (license a) @ ''.'' @ [NL]\<rparr>)
                     | Inl e \<Rightarrow> Inl (silent (Raised e))
                     | Inr t \<Rightarrow> Inr t)) of
           Inl out \<Rightarrow> out
         | Inr template \<Rightarrow>
             (case generate_license template (get_context a) of
                Inl e \<Rightarrow> silent (Raised e)
              | Inr content \<Rightarrow> (silent (Exit 0))\<lparr>stdout := content\<rparr>))
      else if list_vars a then
        (case load_template os a of
           Inl e \<Rightarrow> silent (Raised e)
         | Inr template \<Rightarrow>
             (let var_list = extract_vars template;
                  name = or_else (template_path a) license' in
              if var_list \<noteq> [] then
                (silent (Exit 0))
                  \<lparr>stdout := ''The '' @ name
                     @ '' license template contains the following variables and defaults:''
                     @ [NL] @ var_lines (get_context a) var_list\<rparr>
              else
                (silent (Exit 0))
                  \<lparr>stdout := ''The '' @ name @ '' license template contains no variables.''
                     @ [NL]\<rparr>))
      else
        (case load_template os a of
           Inl e \<Rightarrow> silent (Raised e)
         | Inr template \<Rightarrow>
             (case generate_license template (get_context a) of
                Inl e \<Rightarrow> silent (Raised e)
              | Inr content \<Rightarrow>
                  (if ofile a \<noteq> ''stdout''
                   then (silent Returned)\<lparr>written := Some (ofile a @ ''.'' @ lang, content)\<rparr>
                   else (silent Returned)\<lparr>stdout := content\<rparr>))))"

text \<open>The template that \<open>main\<close> renders in the header mode and in the default mode.\<close>

definition loaded_template :: "env \<Rightarrow> args \<Rightarrow> error + str" where
  "loaded_template os a =
     (if header a then
        (if truthy (template_path a)
         then load_file_template os (the (template_path a)) (language a)
         else load_package_template os (or_else (license a) DEFAULT_LICENSE) (language a) True)
      else load_template os a)"

subsection \<open>Guessing the organization\<close>

text \<open>
  The value that \<open>.decode\<close> is called on: a byte string (the output of a subprocess; every
  \<open>str\<close> of Python 2) or a text (a \<open>str\<close> of Python 3, which has no method \<open>decode\<close>).
\<close>

datatype pyval = Bytes string | Str str

fun decode :: "pyval \<Rightarrow> error + str" where
  "decode (Bytes bs) = decode_utf8 bs"
| "decode (Str s) = Inl AttributeError"

text \<open>\<^verbatim>\<open>bs.strip()\<close> removes ASCII white space at both ends.\<close>

definition is_space :: "char \<Rightarrow> bool" where
  "is_space c = (c \<in> {CHR '' '', CHR 0x09, CHR 0x0A, CHR 0x0B, CHR 0x0C, CHR 0x0D})"

definition strip :: "string \<Rightarrow> string" where
  "strip bs = rev (dropWhile is_space (rev (dropWhile is_space bs)))"

text \<open>
  \<open>check_output\<close> is what \<^verbatim>\<open>subprocess.check_output\<close> does for
  \<^verbatim>\<open>git config --get user.name\<close>: it raises (\<open>OSError\<close> when there is no such executable,
  \<open>CalledProcessError\<close> on a non-zero exit status) or returns the bytes of the standard
  output. \<open>getuser\<close> is what \<^verbatim>\<open>getpass.getuser()\<close> does: bytes under Python 2, a text
  under Python 3. The bare \<open>except\<close> catches every exception of the lookup; the decoding
  is outside the \<open>try\<close>.
\<close>

definition guess_organization :: "error + string \<Rightarrow> error + pyval \<Rightarrow> error + str" where
  "guess_organization check_output getuser =
     (case (case check_output of
              Inr out \<Rightarrow> Inr (Bytes (strip out))
            | Inl e \<Rightarrow> getuser) of
        Inl e \<Rightarrow> Inl e
      | Inr org \<Rightarrow> decode org)"

text \<open>The value of \<open>args.organization\<close>: the default of the option is computed when the
  parser is built, whether or not the option is given.\<close>

definition organization_arg ::
  "str option \<Rightarrow> error + string \<Rightarrow> error + pyval \<Rightarrow> error + str" where
  "organization_arg flag check_output getuser =
     (case guess_organization check_output getuser of
        Inl e \<Rightarrow> Inl e
      | Inr dflt \<Rightarrow> Inr (case flag of None \<Rightarrow> dflt | Some v \<Rightarrow> v))"

section \<open>Notions of the specification\<close>

subsection \<open>Placeholders\<close>

text \<open>A name that the pattern accepts: one or more word characters. A placeholder for
  \<open>key\<close> occurs in \<open>s\<close> when \<open>s\<close> contains the token \<^verbatim>\<open>{{ key }}\<close>.\<close>

definition valid_key :: "str \<Rightarrow> bool" where
  "valid_key key = (key \<noteq> [] \<and> list_all word_char key)"




subsection \<open>Stripping the markers\<close>

definition remove_prefix :: "str \<Rightarrow> str \<Rightarrow> str option" where
  "remove_prefix p s = (if take (length p) s = p then Some (drop (length p) s) else None)"

definition remove_suffix :: "str \<Rightarrow> str \<Rightarrow> str option" where
  "remove_suffix p s =
     (if length p \<le> length s \<and> drop (length s - length p) s = p
      then Some (take (length s - length p) s) else None)"

text \<open>
  The code has no function that strips a decoration. \<open>strip_markers sep\<close> removes the line
  of the open marker at the front and the close marker with its line feed at the end, splits
  what is left into lines and removes from each line the prefix followed by the separator
  \<open>sep pre\<close>; it gives the lines that remain, or \<open>None\<close> when a marker is not there.

  \<open>spec_sep\<close> is the separator of the specification's decoration: one space, and none when
  the prefix is empty. \<open>code_sep\<close> is the separator that the loaders write: always one
  space.
\<close>

definition strip_markers ::
  "(str \<Rightarrow> str) \<Rightarrow> str \<times> str \<times> str \<Rightarrow> str \<Rightarrow> str list option" where
  "strip_markers sep cmt d =
     (case cmt of (op, pre, cl) \<Rightarrow>
        (case remove_prefix (op @ [NL]) d of
           None \<Rightarrow> None
         | Some r \<Rightarrow>
             (case remove_suffix (cl @ [NL]) r of
                None \<Rightarrow> None
              | Some body \<Rightarrow> those (map (remove_prefix (pre @ sep pre)) (readlines body)))))"

definition spec_sep :: "str \<Rightarrow> str" where
  "spec_sep pre = (if pre = [] then [] else '' '')"

definition code_sep :: "str \<Rightarrow> str" where
  "code_sep pre = '' ''"

text \<open>Lines as \<open>readlines\<close> gives them: none is empty, a line feed is the last character of
  a line or not in it, and only the last line may lack it.\<close>

fun lines_wf :: "string list \<Rightarrow> bool" where
  "lines_wf [] = True"
| "lines_wf [l] = (l \<noteq> [] \<and> NL \<notin> set (butlast l))"
| "lines_wf (l # ls) = (l \<noteq> [] \<and> NL \<notin> set (butlast l) \<and> last l = NL \<and> lines_wf ls)"

subsection \<open>Environments of the examples\<close>

text \<open>A package with the template \<^verbatim>\<open>Copyright {{ year }} {{ organization }}\<close>, as
  \<open>template-acme.txt\<close> without a line feed at its end and as \<open>template-acme2.txt\<close> with
  one, with a header template for \<open>acme\<close> only, and with a template \<open>owner\<close> whose
  variables the command line does not provide. There is no file system.\<close>

definition acme_env :: env where
  "acme_env =
     \<lparr>resources = [''template-acme.txt'' \<mapsto> ''Copyright {{ year }} {{ organization }}'',
                   ''template-acme2.txt'' \<mapsto> ''Copyright {{ year }} {{ organization }}'' @ [NL],
                   ''template-acme-header.txt'' \<mapsto> ''{{ project }} (c) {{ year }}'' @ [NL],
                   ''template-owner.txt'' \<mapsto> ''(c) {{ owner }} and {{ holder }}'' @ [NL]],
      exists = (\<lambda>p. False), expanduser = (\<lambda>p. p), expandvars = (\<lambda>p. p),
      abspath = (\<lambda>p. p), open_rb = (\<lambda>p. Inl IOError)\<rparr>"

definition acme_context :: "str \<rightharpoonup> str" where
  "acme_context = [''year'' \<mapsto> ''2024'', ''organization'' \<mapsto> ''Acme'']"

definition acme_args :: args where
  "acme_args =
     \<lparr>license = Some ''acme'', header = False, organization = ''Acme'', project = ''lice'',
      template_path = None, year = ''2024'', language = ''txt'', ofile = ''stdout'',
      list_vars = False\<rparr>"

text \<open>
  A machine where the home directory is \<open>/home/u\<close>, the working directory is \<open>/work\<close>, and
  the only file is \<open>/home/u/t.txt\<close>. The path functions are written for the paths used
  here: no \<open>$\<close>, no \<open>~user\<close>, no \<open>.\<close> or \<open>..\<close> component, no doubled slash. A relative path
  is resolved against the working directory, by \<open>abspath\<close> and by the system calls alike.
\<close>

definition home_abspath :: "str \<Rightarrow> str" where
  "home_abspath p = (if take 1 p = ''/'' then p else ''/work/'' @ p)"

definition home_files :: "str \<rightharpoonup> string" where
  "home_files = [''/home/u/t.txt'' \<mapsto> ''Copyright {{ year }}'' @ [NL]]"

definition home_env :: env where
  "home_env =
     \<lparr>resources = Map.empty,
      exists = (\<lambda>p. home_files (home_abspath p) \<noteq> None),
      expanduser = (\<lambda>p. if p = ''~'' \<or> take 2 p = ''~/'' then ''/home/u'' @ tl p else p),
      expandvars = (\<lambda>p. p),
      abspath = home_abspath,
      open_rb = (\<lambda>p. case home_files (home_abspath p) of
                        None \<Rightarrow> Inl IOError | Some bs \<Rightarrow> Inr bs)\<rparr>"

section \<open>Facts about the model\<close>

subsection \<open>The pattern and the scan\<close>

lemma word_char_not_special [simp]:
  "\<not> word_char CHR '' ''" "\<not> word_char CHR ''{''" "\<not> word_char CHR ''}''"
  by (simp_all add: word_char_def)

lemma takeWhile_word_run:
  "list_all word_char key \<Longrightarrow> takeWhile word_char (key @ CHR '' '' # r) = key"
  by (induction key) auto

lemma dropWhile_word_run:
  "list_all word_char key \<Longrightarrow> dropWhile word_char (key @ CHR '' '' # r) = CHR '' '' # r"
  by (induction key) auto

lemma match_key_placeholder:
  "valid_key key \<Longrightarrow> match_key (placeholder key @ rest) = Some (key, rest)"
  by (simp add: match_key_def placeholder_def valid_key_def Let_def
      takeWhile_word_run dropWhile_word_run)

lemma match_key_SomeD:
  assumes "match_key s = Some (key, rest)"
  shows "s = placeholder key @ rest \<and> valid_key key"
proof -
  let ?d = "drop 3 s"
  from assms have a: "take 3 s = ''{{ ''" and k: "key = takeWhile word_char ?d"
    and ne: "key \<noteq> []" and b: "take 3 (dropWhile word_char ?d) = '' }}''"
    and r: "rest = drop 3 (dropWhile word_char ?d)"
    by (auto simp: match_key_def Let_def split: if_splits)
  have "s = take 3 s @ ?d" by simp
  also have "?d = takeWhile word_char ?d @ dropWhile word_char ?d" by simp
  also have "dropWhile word_char ?d = take 3 (dropWhile word_char ?d) @ rest"
    unfolding r by simp
  finally have "s = ''{{ '' @ key @ '' }}'' @ rest"
    using a b k by simp
  moreover have "list_all word_char key"
    unfolding k by (simp add: list_all_iff) (meson set_takeWhileD)
  ultimately show ?thesis using ne by (simp add: placeholder_def valid_key_def)
qed

lemma match_key_iff:
  "match_key s = Some (key, rest) \<longleftrightarrow> s = placeholder key @ rest \<and> valid_key key"
  using match_key_SomeD match_key_placeholder by blast






subsection \<open>Extraction, substitution and the command line\<close>



lemmas eval_extract = extract_vars_def finditer.simps match_key_def word_char_def Let_def

lemmas eval_generate = generate_license_def replace.simps placeholder_def



lemma main_render:
  assumes "header a \<or> \<not> list_vars a" and "loaded_template os a = Inr t"
  shows "main os a =
     (case generate_license t (get_context a) of
        Inl e \<Rightarrow> silent (Raised e)
      | Inr content \<Rightarrow>
          if header a then (silent (Exit 0))\<lparr>stdout := content\<rparr>
          else if ofile a \<noteq> ''stdout''
          then (silent Returned)\<lparr>written := Some (ofile a @ ''.'' @ language a, content)\<rparr>
          else (silent Returned)\<lparr>stdout := content\<rparr>)"
proof (cases "header a")
  case True
  with assms(2) show ?thesis
    by (cases "truthy (template_path a)")
       (simp_all add: main_def loaded_template_def Let_def split: sum.splits)
next
  case False
  with assms show ?thesis
    by (simp add: main_def loaded_template_def Let_def split: sum.splits)
qed

subsection \<open>Replacement\<close>




subsection \<open>The loaders\<close>

lemma write_lines_Inr:
  "write_lines content pre ls = Inr d \<longleftrightarrow>
   list_all (\<lambda>l. utf8_ok (map of_char l)) ls
   \<and> d = content @ concat (map (\<lambda>l. pre @ '' '' @ l) ls)"
  by (induction ls arbitrary: content) (auto simp: decode_utf8_def)

lemma write_template_Inr:
  assumes "lang_cmt lang = Inr (op, pre, cl)"
  shows "write_template lang bs = Inr d \<longleftrightarrow>
     list_all (\<lambda>l. utf8_ok (map of_char l)) (readlines bs)
     \<and> d = op @ NL # concat (map (\<lambda>l. pre @ '' '' @ l) (readlines bs)) @ cl @ [NL]"
proof (cases "write_lines (op @ [NL]) pre (readlines bs)")
  case (Inl e)
  with write_lines_Inr[of "op @ [NL]" pre "readlines bs"] assms show ?thesis
    by (auto simp: write_template_def)
next
  case (Inr content)
  with write_lines_Inr[of "op @ [NL]" pre "readlines bs" content] assms show ?thesis
    by (auto simp: write_template_def)
qed

subsection \<open>Lines and markers\<close>

lemma readlines_line:
  "NL \<notin> set b \<Longrightarrow> readlines (b @ NL # rest) = (b @ [NL]) # readlines rest"
  by (induction b) auto

lemma readlines_last:
  "NL \<notin> set b \<Longrightarrow> b \<noteq> [] \<Longrightarrow> readlines b = [b]"
proof (induction b)
  case Nil
  then show ?case by simp
next
  case (Cons c b)
  then show ?case by (cases "b = []") auto
qed

lemma readlines_single:
  assumes "l \<noteq> []" and "NL \<notin> set (butlast l)"
  shows "readlines l = [l]"
proof (cases "last l = NL")
  case True
  with assms have "l = butlast l @ NL # []" by (metis append_butlast_last_id)
  with readlines_line[OF assms(2), of "[]"] show ?thesis by simp
next
  case False
  with assms have "NL \<notin> set l"
    by (metis append_butlast_last_id set_ConsD set_append Un_iff empty_set empty_iff list.set(2))
  with assms(1) show ?thesis by (simp add: readlines_last)
qed

lemma concat_readlines: "concat (readlines s) = s"
  by (induction s) (auto split: list.splits)

lemma readlines_concat: "lines_wf ls \<Longrightarrow> readlines (concat ls) = ls"
proof (induction ls rule: lines_wf.induct)
  case 1
  then show ?case by simp
next
  case (2 l)
  then show ?case by (simp add: readlines_single)
next
  case (3 l l' ls)
  then have n: "NL \<notin> set (butlast l)" and "l \<noteq> []" and "last l = NL"
    by simp_all
  then have l: "l = butlast l @ [NL]"
    by (metis append_butlast_last_id)
  have "readlines (concat (l # l' # ls)) = readlines (butlast l @ NL # concat (l' # ls))"
    by (subst l) simp
  also have "\<dots> = (butlast l @ [NL]) # readlines (concat (l' # ls))"
    by (rule readlines_line[OF n])
  finally show ?case using 3 l by simp
qed

lemma lines_wf_readlines: "lines_wf (readlines s)"
proof (induction s)
  case Nil
  then show ?case by simp
next
  case (Cons c s)
  show ?case
  proof (cases "c = NL")
    case True
    with Cons show ?thesis by (cases "readlines s") auto
  next
    case False
    show ?thesis
    proof (cases "readlines s")
      case Nil
      with False show ?thesis by simp
    next
      case (Cons l ls)
      with Cons.IH False show ?thesis by (cases ls) auto
    qed
  qed
qed

lemma lines_wf_prepend:
  "lines_wf ls \<Longrightarrow> NL \<notin> set q \<Longrightarrow> lines_wf (map ((@) q) ls)"
  by (induction ls rule: lines_wf.induct) (auto simp: butlast_append)

lemma remove_prefix_append [simp]: "remove_prefix p (p @ s) = Some s"
  by (simp add: remove_prefix_def)

lemma remove_suffix_append [simp]: "remove_suffix p (s @ p) = Some s"
  by (simp add: remove_suffix_def)

lemma those_remove_prefix: "those (map (remove_prefix q) (map ((@) q) ls)) = Some ls"
  by (induction ls) auto

lemma lang_cmt_prefix: "lang_cmt lang = Inr (op, pre, cl) \<Longrightarrow> NL \<notin> set pre"
  by (auto simp: lang_cmt_def LANGS_def LANG_CMT_def split: if_splits)

lemma langs_total: "lang \<in> fst ` set LANGS \<Longrightarrow> \<exists>cmt. lang_cmt lang = Inr cmt"
  by (auto simp: lang_cmt_def LANGS_def LANG_CMT_def)

subsection \<open>Evaluating the examples\<close>

lemmas eval_tables = lang_cmt_def LANGS_def LANG_CMT_def
lemmas eval_load = load_package_template_def template_name_def write_template_def
  decode_utf8_def or_else_def truthy_def DEFAULT_LICENSE_def


lemma acme_txt_load:
  "load_package_template acme_env ''acme'' ''txt'' False
     = Inr (NL # '' Copyright {{ year }} {{ organization }}'' @ [NL])"
  "load_package_template acme_env ''acme2'' ''txt'' False
     = Inr (NL # '' Copyright {{ year }} {{ organization }}'' @ [NL, NL])"
  by (simp_all add: acme_env_def eval_load eval_tables)

lemma acme_txt_render:
  "generate_license (NL # '' Copyright {{ year }} {{ organization }}'' @ [NL]) acme_context
     = Inr (NL # '' Copyright 2024 Acme'' @ [NL])"
  "generate_license (NL # '' Copyright {{ year }} {{ organization }}'' @ [NL, NL]) acme_context
     = Inr (NL # '' Copyright 2024 Acme'' @ [NL, NL])"
  by (simp_all add: eval_extract eval_generate acme_context_def)

section \<open>The claims\<close>










text \<open>
  C8. In the header mode, when no template path is given and the package has no header
  template for the license, \<open>main\<close> writes a diagnostic to the error stream, nothing to
  the standard output, and exits with code 1. When the header template is loaded and
  rendered, \<open>main\<close> writes the result to the standard output and exits with code 0.
\<close>

theorem C8_header_mode:
  "(header a \<and> \<not> truthy (template_path a)
      \<and> resources os (template_name (or_else (license a) DEFAULT_LICENSE) True) = None
    \<longrightarrow> main os a
        = \<lparr>stdout = [],
           stderr = ''Sorry, no source headers are available for '' @ percent_s (license a)
                    @ ''.'' @ [NL],
           written = None, ending = Exit 1\<rparr>)
   \<and> (header a \<and> loaded_template os a = Inr t
        \<and> generate_license t (get_context a) = Inr content
      \<longrightarrow> main os a = \<lparr>stdout = content, stderr = [], written = None, ending = Exit 0\<rparr>)"
proof (intro conjI impI)
  assume "header a \<and> \<not> truthy (template_path a)
      \<and> resources os (template_name (or_else (license a) DEFAULT_LICENSE) True) = None"
  then show "main os a
        = \<lparr>stdout = [],
           stderr = ''Sorry, no source headers are available for '' @ percent_s (license a)
                    @ ''.'' @ [NL],
           written = None, ending = Exit 1\<rparr>"
    by (simp add: main_def Let_def load_package_template_def silent_def)
next
  assume "header a \<and> loaded_template os a = Inr t
        \<and> generate_license t (get_context a) = Inr content"
  then show "main os a = \<lparr>stdout = content, stderr = [], written = None, ending = Exit 0\<rparr>"
    using main_render[of a os t] by (simp add: silent_def)
qed

theorem C8_witness:
  "main acme_env (acme_args\<lparr>license := Some ''owner'', header := True\<rparr>)
     = \<lparr>stdout = [], stderr = ''Sorry, no source headers are available for owner.'' @ [NL],
        written = None, ending = Exit 1\<rparr>
   \<and> main acme_env (acme_args\<lparr>header := True\<rparr>)
     = \<lparr>stdout = NL # '' lice (c) 2024'' @ [NL, NL], stderr = [], written = None,
        ending = Exit 0\<rparr>"
proof -
  let ?a = "acme_args\<lparr>license := Some ''owner'', header := True\<rparr>"
  let ?b = "acme_args\<lparr>header := True\<rparr>"
  let ?t = "NL # '' {{ project }} (c) {{ year }}'' @ [NL, NL]"
  have 1: "header ?a \<and> \<not> truthy (template_path ?a)
      \<and> resources acme_env (template_name (or_else (license ?a) DEFAULT_LICENSE) True) = None"
    by (simp add: acme_args_def acme_env_def eval_load)
  have l: "loaded_template acme_env ?b = Inr ?t"
    by (simp add: loaded_template_def acme_env_def acme_args_def eval_load eval_tables)
  have g: "generate_license ?t (get_context ?b) = Inr (NL # '' lice (c) 2024'' @ [NL, NL])"
    by (simp add: eval_extract eval_generate get_context_def acme_args_def)
  have 2: "header ?b \<and> loaded_template acme_env ?b = Inr ?t
        \<and> generate_license ?t (get_context ?b) = Inr (NL # '' lice (c) 2024'' @ [NL, NL])"
    using l g by simp
  have p: "percent_s (license ?a) = ''owner''" by (simp add: percent_s_def)
  from C8_header_mode[of ?a acme_env] 1 p
  have A: "main acme_env ?a
     = \<lparr>stdout = [], stderr = ''Sorry, no source headers are available for owner.'' @ [NL],
        written = None, ending = Exit 1\<rparr>" by simp
  from C8_header_mode[of ?b acme_env ?t "NL # '' lice (c) 2024'' @ [NL, NL]"] 2
  have B: "main acme_env ?b
     = \<lparr>stdout = NL # '' lice (c) 2024'' @ [NL, NL], stderr = [], written = None,
        ending = Exit 0\<rparr>" by blast
  from A B show ?thesis by blast
qed

text \<open>
  C1, as the code has it. For every comment style and every template whose lines are
  well-formed UTF-8, both loaders emit the open marker (possibly empty) and a line feed, then
  for every line the line prefix, one space and the line as it is, and at the end the close
  marker (possibly empty) and a line feed. The space is written after an empty prefix too:
  with the plain-text style the template \<^verbatim>\<open>Copyright {{ year }} {{ organization }}\<close> and the
  context of the example give a line feed, \<^verbatim>\<open> Copyright 2024 Acme\<close> with its leading space,
  and a line feed (two, when the line of the template ends with a line feed).
\<close>

theorem C1_decoration:
  assumes "lang_cmt lang = Inr (op, pre, cl)"
    and "list_all (\<lambda>l. utf8_ok (map of_char l)) (readlines bs)"
  shows "(resources os (template_name lic hdr) = Some bs
          \<longrightarrow> load_package_template os lic lang hdr
              = Inr (op @ NL # concat (map (\<lambda>l. pre @ '' '' @ l) (readlines bs)) @ cl @ [NL]))
       \<and> (exists os path \<and> open_rb os (clean_path os path) = Inr bs
          \<longrightarrow> load_file_template os path lang
              = Inr (op @ NL # concat (map (\<lambda>l. pre @ '' '' @ l) (readlines bs)) @ cl @ [NL]))
       \<and> load_package_template acme_env ''acme'' ''txt'' False
           = Inr (NL # '' Copyright {{ year }} {{ organization }}'' @ [NL])
       \<and> generate_license (NL # '' Copyright {{ year }} {{ organization }}'' @ [NL]) acme_context
           = Inr (NL # '' Copyright 2024 Acme'' @ [NL])
       \<and> load_package_template acme_env ''acme2'' ''txt'' False
           = Inr (NL # '' Copyright {{ year }} {{ organization }}'' @ [NL, NL])
       \<and> generate_license (NL # '' Copyright {{ year }} {{ organization }}'' @ [NL, NL]) acme_context
           = Inr (NL # '' Copyright 2024 Acme'' @ [NL, NL])"
  using write_template_Inr[OF assms(1), of bs] assms(2) acme_txt_load acme_txt_render
  by (simp add: load_package_template_def load_file_template_def)

theorem C1_witness:
  "load_package_template acme_env ''acme2'' ''py'' False
     = Inr (NL # ''# Copyright {{ year }} {{ organization }}'' @ [NL, NL])
   \<and> load_package_template acme_env ''acme'' ''txt'' False
     = Inr (NL # '' Copyright {{ year }} {{ organization }}'' @ [NL])
   \<and> load_file_template home_env ''/home/u/t.txt'' ''c''
     = Inr (''/*'' @ NL # '' * Copyright {{ year }}'' @ NL # '' */'' @ [NL])"
proof -
  let ?bs = "''Copyright {{ year }} {{ organization }}''"
  have py: "lang_cmt ''py'' = Inr ([], ''#'', [])" by (simp add: eval_tables)
  have tx: "lang_cmt ''txt'' = Inr ([], [], [])" by (simp add: eval_tables)
  have c: "lang_cmt ''c'' = Inr (''/*'', '' *'', '' */'')" by (simp add: eval_tables)
  have u2: "list_all (\<lambda>l. utf8_ok (map of_char l)) (readlines (?bs @ [NL]))" by simp
  have u1: "list_all (\<lambda>l. utf8_ok (map of_char l)) (readlines ?bs)" by simp
  have u3: "list_all (\<lambda>l. utf8_ok (map of_char l)) (readlines (''Copyright {{ year }}'' @ [NL]))"
    by simp
  have r2: "resources acme_env (template_name ''acme2'' False) = Some (?bs @ [NL])"
    by (simp add: acme_env_def template_name_def)
  have r1: "resources acme_env (template_name ''acme'' False) = Some ?bs"
    by (simp add: acme_env_def template_name_def)
  have f: "exists home_env ''/home/u/t.txt''
      \<and> open_rb home_env (clean_path home_env ''/home/u/t.txt'') = Inr (''Copyright {{ year }}'' @ [NL])"
    by (simp add: home_env_def clean_path_def home_abspath_def home_files_def)
  from C1_decoration[OF py u2, where os = acme_env and lic = "''acme2''" and hdr = False] r2
  have A: "load_package_template acme_env ''acme2'' ''py'' False
     = Inr (NL # ''# Copyright {{ year }} {{ organization }}'' @ [NL, NL])" by simp
  from C1_decoration[OF tx u1, where os = acme_env and lic = "''acme''" and hdr = False] r1
  have B: "load_package_template acme_env ''acme'' ''txt'' False
     = Inr (NL # '' Copyright {{ year }} {{ organization }}'' @ [NL])" by simp
  from C1_decoration[OF c u3, where os = home_env and path = "''/home/u/t.txt''"] f
  have C: "load_file_template home_env ''/home/u/t.txt'' ''c''
     = Inr (''/*'' @ NL # '' * Copyright {{ year }}'' @ NL # '' */'' @ [NL])" by simp
  from A B C show ?thesis by blast
qed

text \<open>
  C1 as stated fails: the plain-text rendering of the example is not a line feed,
  \<^verbatim>\<open>Copyright 2024 Acme\<close> and two line feeds, neither for the template without a final line
  feed nor for the template with one; the content line begins with a space.
\<close>

theorem C1_counterexample:
  "load_package_template acme_env ''acme'' ''txt'' False
     = Inr (NL # '' Copyright {{ year }} {{ organization }}'' @ [NL])
   \<and> generate_license (NL # '' Copyright {{ year }} {{ organization }}'' @ [NL]) acme_context
     = Inr (NL # '' Copyright 2024 Acme'' @ [NL])
   \<and> NL # '' Copyright 2024 Acme'' @ [NL] \<noteq> NL # ''Copyright 2024 Acme'' @ [NL, NL]
   \<and> load_package_template acme_env ''acme2'' ''txt'' False
     = Inr (NL # '' Copyright {{ year }} {{ organization }}'' @ [NL, NL])
   \<and> generate_license (NL # '' Copyright {{ year }} {{ organization }}'' @ [NL, NL]) acme_context
     = Inr (NL # '' Copyright 2024 Acme'' @ [NL, NL])
   \<and> NL # '' Copyright 2024 Acme'' @ [NL, NL] \<noteq> NL # ''Copyright 2024 Acme'' @ [NL, NL]"
  using acme_txt_load acme_txt_render by simp

text \<open>
  C6, as the code has it. For every language of the table and every template, decorating the
  template (here with the package loader) and then stripping the line of the open marker, on
  every line the prefix together with the one space that the loader writes after it (after
  an empty prefix too), and the close marker with its line feed gives back the lines of the
  template exactly; these lines put together are the template. When the prefix is not
  empty, stripping what the specification's decoration would have written does the same.
\<close>

theorem C6_round_trip:
  assumes "lang_cmt lang = Inr (op, pre, cl)"
    and "resources os (template_name lic hdr) = Some bs"
    and "load_package_template os lic lang hdr = Inr d"
  shows "strip_markers code_sep (op, pre, cl) d = Some (readlines bs)
         \<and> concat (readlines bs) = bs
         \<and> (pre \<noteq> [] \<longrightarrow> strip_markers spec_sep (op, pre, cl) d = Some (readlines bs))"
proof -
  let ?q = "pre @ '' ''"
  let ?body = "concat (map ((@) ?q) (readlines bs))"
  have q: "(\<lambda>l. pre @ '' '' @ l) = (@) ?q"
    by (simp add: fun_eq_iff)
  from assms(2,3) have "write_template lang bs = Inr d"
    by (simp add: load_package_template_def)
  then have "d = op @ NL # concat (map (\<lambda>l. pre @ '' '' @ l) (readlines bs)) @ cl @ [NL]"
    by (simp add: write_template_Inr[OF assms(1)])
  then have d: "d = (op @ [NL]) @ ?body @ (cl @ [NL])"
    unfolding q by simp
  have "NL \<notin> set ?q" using lang_cmt_prefix[OF assms(1)] by simp
  then have "lines_wf (map ((@) ?q) (readlines bs))"
    by (intro lines_wf_prepend lines_wf_readlines)
  then have r: "readlines ?body = map ((@) ?q) (readlines bs)"
    by (rule readlines_concat)
  have "strip_markers code_sep (op, pre, cl) d
        = those (map (remove_prefix ?q) (readlines ?body))"
    unfolding d strip_markers_def code_sep_def
    by (simp only: prod.case remove_prefix_append remove_suffix_append option.case)
  also have "\<dots> = Some (readlines bs)"
    unfolding r by (rule those_remove_prefix)
  finally have s: "strip_markers code_sep (op, pre, cl) d = Some (readlines bs)" .
  have "strip_markers spec_sep (op, pre, cl) d = strip_markers code_sep (op, pre, cl) d"
    if "pre \<noteq> []"
  proof -
    from that have e: "spec_sep pre = code_sep pre"
      by (simp add: spec_sep_def code_sep_def)
    show ?thesis unfolding strip_markers_def prod.case e ..
  qed
  with s show ?thesis by (simp add: concat_readlines)
qed

theorem C6_witness:
  "strip_markers code_sep (''/*'', '' *'', '' */'')
     (''/*'' @ NL # '' * Copyright {{ year }} {{ organization }}'' @ NL # '' */'' @ [NL])
   = Some [''Copyright {{ year }} {{ organization }}'' @ [NL]]
   \<and> strip_markers spec_sep (''/*'', '' *'', '' */'')
     (''/*'' @ NL # '' * Copyright {{ year }} {{ organization }}'' @ NL # '' */'' @ [NL])
   = Some [''Copyright {{ year }} {{ organization }}'' @ [NL]]"
proof -
  let ?bs = "''Copyright {{ year }} {{ organization }}'' @ [NL]"
  let ?d = "''/*'' @ NL # '' * Copyright {{ year }} {{ organization }}'' @ NL # '' */'' @ [NL]"
  have c: "lang_cmt ''c'' = Inr (''/*'', '' *'', '' */'')" by (simp add: eval_tables)
  have r: "resources acme_env (template_name ''acme2'' False) = Some ?bs"
    by (simp add: acme_env_def template_name_def)
  have l: "load_package_template acme_env ''acme2'' ''c'' False = Inr ?d"
    by (simp add: acme_env_def eval_load eval_tables)
  have n: "'' *'' \<noteq> []" by simp
  have rl: "readlines ?bs = [?bs]" by simp
  from C6_round_trip[OF c r l] n show ?thesis unfolding rl by blast
qed

text \<open>
  C6 as stated fails for the plain-text style: stripping the (empty) markers of the
  specification's decoration from the decorated template leaves the space that the loader
  wrote at the start of the line.
\<close>

theorem C6_counterexample:
  "lang_cmt ''txt'' = Inr ([], [], [])
   \<and> resources acme_env (template_name ''acme2'' False)
      = Some (''Copyright {{ year }} {{ organization }}'' @ [NL])
   \<and> load_package_template acme_env ''acme2'' ''txt'' False
      = Inr (NL # '' Copyright {{ year }} {{ organization }}'' @ [NL, NL])
   \<and> strip_markers spec_sep ([], [], [])
        (NL # '' Copyright {{ year }} {{ organization }}'' @ [NL, NL])
      = Some ['' Copyright {{ year }} {{ organization }}'' @ [NL]]
   \<and> readlines (''Copyright {{ year }} {{ organization }}'' @ [NL])
      = [''Copyright {{ year }} {{ organization }}'' @ [NL]]
   \<and> Some ['' Copyright {{ year }} {{ organization }}'' @ [NL]]
      \<noteq> Some (readlines (''Copyright {{ year }} {{ organization }}'' @ [NL]))"
proof -
  have 1: "lang_cmt ''txt'' = Inr ([], [], [])" by (simp add: eval_tables)
  have 2: "resources acme_env (template_name ''acme2'' False)
      = Some (''Copyright {{ year }} {{ organization }}'' @ [NL])"
    by (simp add: acme_env_def template_name_def)
  have 3: "strip_markers spec_sep ([], [], [])
        (NL # '' Copyright {{ year }} {{ organization }}'' @ [NL, NL])
      = Some ['' Copyright {{ year }} {{ organization }}'' @ [NL]]"
    by (simp add: strip_markers_def spec_sep_def remove_prefix_def remove_suffix_def)
  have 4: "readlines (''Copyright {{ year }} {{ organization }}'' @ [NL])
      = [''Copyright {{ year }} {{ organization }}'' @ [NL]]" by simp
  from 1 2 3 4 acme_txt_load(2) show ?thesis by simp
qed




text \<open>
  C4. \<open>load_file_template\<close> opens the cleaned path, but tests the path as it was given for
  existence. On a machine where \<open>~/t.txt\<close> resolves to the existing file \<open>/home/u/t.txt\<close>,
  it raises the error for a missing path although the resolved path exists and can be read.
\<close>

theorem C4_path_check:
  "clean_path home_env ''~/t.txt'' = ''/home/u/t.txt''
   \<and> exists home_env (clean_path home_env ''~/t.txt'')
   \<and> open_rb home_env (clean_path home_env ''~/t.txt'') = Inr (''Copyright {{ year }}'' @ [NL])
   \<and> \<not> exists home_env ''~/t.txt''
   \<and> load_file_template home_env ''~/t.txt'' ''txt''
     = Inl (ValueError ''path does not exist: ~/t.txt'')"
  by (simp add: load_file_template_def clean_path_def home_env_def home_abspath_def
      home_files_def)

text \<open>
  C9. When the lookup fails and \<open>getuser\<close> returns a text (Python 3), \<open>guess_organization\<close>
  raises \<open>AttributeError\<close> where the fallback should give the user name, and so does the
  computation of the default of the option. The fallback works on a byte string (Python 2),
  and when the lookup succeeds the result is the stripped output, decoded.
\<close>

theorem C9_fallback:
  "guess_organization (Inl OSError) (Inr (Str ''alice'')) = Inl AttributeError
   \<and> organization_arg None (Inl OSError) (Inr (Str ''alice'')) = Inl AttributeError
   \<and> guess_organization (Inl e) (Inr (Str u)) = Inl AttributeError
   \<and> guess_organization (Inl e) (Inr (Bytes ''alice'')) = Inr ''alice''
   \<and> guess_organization (Inr (''Alice Example'' @ [NL])) g = Inr ''Alice Example''
   \<and> guess_organization (Inr out) g = decode_utf8 (strip out)"
  by (simp add: guess_organization_def organization_arg_def decode_utf8_def strip_def
      is_space_def)

end
